theory Spec2Isabelle
  imports Complex_Main
begin

section \<open>The PM100 power-meter controller (PM100.py)\<close>

text \<open>
  The controller is a Python class whose methods mutate the instance, print to the
  console, read the keyboard and talk to the instrument through pyvisa and the
  ThorlabsPM100 driver. The embedding passes the instance explicitly, keeps the console
  output, the requests sent to the instrument and the prompts shown as traces inside the
  state, and takes the behaviour of the instrument and of the operator as a parameter
  (\<open>env\<close>). Python floats are modelled as reals: division and rounding are exact.
\<close>

subsection \<open>Exceptions\<close>

text \<open>
  Subclasses of Python's \<open>Exception\<close>, which the \<open>except Exception\<close> clauses of the
  source catch. \<open>DeviceError\<close> stands for whatever pyvisa or the driver raises
  (for example a VisaIOError).
\<close>

datatype exception =
    AttributeError string
  | KeyError string
  | ZeroDivisionError
  | EOFError
  | DeviceError string

text \<open>\<open>sys.exit\<close> raises SystemExit, which is not an \<open>Exception\<close> and is not caught.\<close>

datatype raised = Exception exception | SystemExit string

subsection \<open>The instrument, the console and the operator\<close>

datatype handle = Handle string

datatype driver = ThorlabsPM100 handle

text \<open>Everything the controller asks of pyvisa or of the driver, in the source's terms.\<close>

datatype request =
    OpenResource string nat      \<comment> \<open>\<open>rm.open_resource(device, timeout=2500)\<close>\<close>
  | WrapDriver handle            \<comment> \<open>\<open>ThorlabsPM100(inst=self.inst)\<close>\<close>
  | CloseHandle handle           \<comment> \<open>\<open>inst.close()\<close>\<close>
  | SetRangeAuto string          \<comment> \<open>\<open>sense.power.dc.range.auto = ...\<close>\<close>
  | ConfigureScalarPower         \<comment> \<open>\<open>configure.scalar.power()\<close>\<close>
  | SetLpassState int            \<comment> \<open>\<open>input.pdiode.filter.lpass.state = ...\<close>\<close>
  | SetAverageCount int          \<comment> \<open>\<open>sense.average.count = ...\<close>\<close>
  | SetPowerUnit string          \<comment> \<open>\<open>sense.power.dc.unit = ...\<close>\<close>
  | SetWavelength real           \<comment> \<open>\<open>sense.correction.wavelength = ...\<close>\<close>
  | Read                         \<comment> \<open>\<open>power_meter.read\<close>\<close>
  | GetRangeUpper                \<comment> \<open>\<open>sense.power.dc.range.upper\<close>\<close>

text \<open>The two calls of \<open>input\<close>.\<close>

datatype prompt = ChooseDevice | ChooseUnit

text \<open>The lines the source prints, one constructor for each \<open>print\<close>.\<close>

datatype message =
    ConnectionEnded string              \<comment> \<open>Connection to device ... ended\<close>
  | NoDeviceConnected                   \<comment> \<open>No device connected!\<close>
  | FoundDevices "string list"          \<comment> \<open>Found the following devices: ...\<close>
  | ConnectionSuccessful string         \<comment> \<open>Connection to device ... succesful!\<close>
  | ConnectionUnsuccessful exception    \<comment> \<open>Connection to device unsuccesful ...\<close>
  | AverageValue real string            \<comment> \<open>Average value : ... unit\<close>
  | StandardDeviation real string       \<comment> \<open>Standard Deviation : ... unit\<close>
  | AutoRangeOn                         \<comment> \<open>Auto-Range ON\<close>
  | AutoRangeOff                        \<comment> \<open>Auto-Range OFF\<close>
  | PowerReading real string            \<comment> \<open>Power reading: ... unit\<close>
  | InvalidState string                 \<comment> \<open>Invalid state '...'. Please enter either 'low' or 'high'\<close>
  | BandwidthSet string                 \<comment> \<open>bandwidth set to ...\<close>
  | ErrorOccurred exception             \<comment> \<open>An error occurred: ...\<close>
  | UnitsSet string                     \<comment> \<open>Units set to ...\<close>
  | ErrorChangingUnit exception         \<comment> \<open>Error changing unit type: ...\<close>

text \<open>
  The environment. \<open>resources\<close> is what \<open>rm.list_resources()\<close> returns. The k-th
  request sent to the instrument (counted from 0 over the life of the controller) is
  answered by \<open>ack k\<close> when it is a command (\<open>None\<close>: carried out) and by
  \<open>reading k\<close> when it is a query; the k-th call of \<open>input\<close> is answered by
  \<open>keyboard k\<close>. All three can only raise subclasses of \<open>Exception\<close>.
\<close>

record env =
  resources :: "string list"
  ack :: "nat \<Rightarrow> exception option"
  reading :: "nat \<Rightarrow> exception + real"
  keyboard :: "nat \<Rightarrow> exception + string"

subsection \<open>The instance\<close>

text \<open>
  The attributes of \<open>self\<close>. An attribute that \<open>__init__\<close> does not assign is absent
  (\<open>None\<close>) until a method assigns it; reading an absent attribute raises AttributeError.
  The last three fields are the world outside the object: the requests sent, the prompts
  shown and the lines printed, oldest first.
\<close>

record PM100 =
  devices :: "string list"
  unit :: string
  verbose :: bool
  device :: "string option"
  inst :: "handle option"
  power_meter :: "driver option"
  n_averages :: "int option"
  unit_to_measure :: "string option"
  conversion :: "real option"
  sent :: "request list"
  prompts :: "prompt list"
  printed :: "message list"

subsection \<open>Statements: state passing with exceptions\<close>

type_synonym 'a action = "PM100 \<Rightarrow> (raised + 'a) \<times> PM100"

definition py_return :: "'a \<Rightarrow> 'a action" where
  "py_return x = (\<lambda>s. (Inr x, s))"

definition py_raise :: "raised \<Rightarrow> 'a action" where
  "py_raise e = (\<lambda>s. (Inl e, s))"

text \<open>Sequencing: an exception skips the rest; the assignments made so far stay.\<close>

definition py_bind :: "'a action \<Rightarrow> ('a \<Rightarrow> 'b action) \<Rightarrow> 'b action" where
  "py_bind m f = (\<lambda>s. case m s of (Inl e, s') \<Rightarrow> (Inl e, s') | (Inr x, s') \<Rightarrow> f x s')"

text \<open>\<open>try: body  except Exception as e: handler\<close>. SystemExit passes through.\<close>

definition py_try :: "'a action \<Rightarrow> (exception \<Rightarrow> 'a action) \<Rightarrow> 'a action" where
  "py_try body handler =
     (\<lambda>s. case body s of
        (Inl (Exception e), s') \<Rightarrow> handler e s'
      | (Inl (SystemExit m), s') \<Rightarrow> (Inl (SystemExit m), s')
      | (Inr x, s') \<Rightarrow> (Inr x, s'))"

definition gets :: "(PM100 \<Rightarrow> 'a) \<Rightarrow> 'a action" where
  "gets f = (\<lambda>s. (Inr (f s), s))"

definition modify :: "(PM100 \<Rightarrow> PM100) \<Rightarrow> unit action" where
  "modify f = (\<lambda>s. (Inr (), f s))"

text \<open>Reading an attribute that may be absent.\<close>

definition getattr :: "(PM100 \<Rightarrow> 'a option) \<Rightarrow> string \<Rightarrow> 'a action" where
  "getattr f name =
     (\<lambda>s. case f s of
        None \<Rightarrow> (Inl (Exception (AttributeError name)), s)
      | Some x \<Rightarrow> (Inr x, s))"

definition print :: "message \<Rightarrow> unit action" where
  "print m = modify (\<lambda>s. s\<lparr>printed := printed s @ [m]\<rparr>)"

text \<open>A command to the instrument: recorded, then carried out or refused.\<close>

definition command :: "env \<Rightarrow> request \<Rightarrow> unit action" where
  "command E r =
     (\<lambda>s. case ack E (length (sent s)) of
        None \<Rightarrow> (Inr (), s\<lparr>sent := sent s @ [r]\<rparr>)
      | Some e \<Rightarrow> (Inl (Exception e), s\<lparr>sent := sent s @ [r]\<rparr>))"

text \<open>A query: recorded, then answered with a number or an exception.\<close>

definition query :: "env \<Rightarrow> request \<Rightarrow> real action" where
  "query E r =
     (\<lambda>s. case reading E (length (sent s)) of
        Inl e \<Rightarrow> (Inl (Exception e), s\<lparr>sent := sent s @ [r]\<rparr>)
      | Inr v \<Rightarrow> (Inr v, s\<lparr>sent := sent s @ [r]\<rparr>))"

text \<open>\<open>input(...)\<close>: the prompt is shown, then the operator types a line or the input ends.\<close>

definition input :: "env \<Rightarrow> prompt \<Rightarrow> string action" where
  "input E p =
     (\<lambda>s. case keyboard E (length (prompts s)) of
        Inl e \<Rightarrow> (Inl (Exception e), s\<lparr>prompts := prompts s @ [p]\<rparr>)
      | Inr t \<Rightarrow> (Inr t, s\<lparr>prompts := prompts s @ [p]\<rparr>))"

text \<open>Float division \<open>a / b\<close>.\<close>

definition py_div :: "real \<Rightarrow> real \<Rightarrow> real action" where
  "py_div a b = (if b = 0 then py_raise (Exception ZeroDivisionError) else py_return (a / b))"

subsection \<open>Numeric helpers of numpy and Python\<close>

text \<open>\<open>data.mean()\<close> and \<open>data.std()\<close> (the population standard deviation).\<close>

definition mean :: "real list \<Rightarrow> real" where
  "mean xs = sum_list xs / real (length xs)"

definition std :: "real list \<Rightarrow> real" where
  "std xs = sqrt (mean (map (\<lambda>x. (x - mean xs)\<^sup>2) xs))"

text \<open>\<open>round(x, 2)\<close>: to the nearest hundredth, a tie to the even one.\<close>

definition rint :: "real \<Rightarrow> int" where
  "rint y =
     (let f = \<lfloor>y\<rfloor>; d = y - of_int f
      in if d < 1 / 2 then f else if 1 / 2 < d then f + 1 else if even f then f else f + 1)"

definition round2 :: "real \<Rightarrow> real" where
  "round2 x = of_int (rint (x * 100)) / 100"

subsection \<open>The methods of class PM100\<close>

text \<open>
  \<open>__init__\<close>: the device list is the one pyvisa enumerates, the unit is W, and
  \<open>device\<close>, \<open>inst\<close>, \<open>power_meter\<close>, \<open>n_averages\<close>, \<open>unit_to_measure\<close> and
  \<open>conversion\<close> are not assigned.
\<close>

text \<open>
  \<open>visa.ResourceManager()\<close> and \<open>list_resources()\<close> are taken to succeed: when they
  raise, no controller is constructed.
\<close>

definition init :: "env \<Rightarrow> bool \<Rightarrow> PM100" where
  "init E v =
     \<lparr>devices = resources E, unit = ''W'', verbose = v,
      device = None, inst = None, power_meter = None, n_averages = None,
      unit_to_measure = None, conversion = None,
      sent = [], prompts = [], printed = []\<rparr>"

definition close :: "env \<Rightarrow> unit action" where
  "close E =
     py_try
       (py_bind (getattr inst ''inst'') (\<lambda>h.
        py_bind (command E (CloseHandle h)) (\<lambda>_.
        py_bind (gets verbose) (\<lambda>v.
        if v then py_bind (getattr device ''device'') (\<lambda>d. print (ConnectionEnded d))
        else py_return ()))))
       (\<lambda>e. print NoDeviceConnected)"

text \<open>The branch of \<open>initialise\<close> that chooses the device.\<close>

definition select_device :: "env \<Rightarrow> string option \<Rightarrow> unit action" where
  "select_device E dev =
     (case dev of
        Some d \<Rightarrow> modify (\<lambda>s. s\<lparr>device := Some d\<rparr>)
      | None \<Rightarrow>
          py_bind (gets devices) (\<lambda>ds.
          if length ds = 1 then modify (\<lambda>s. s\<lparr>device := Some (ds ! 0)\<rparr>)
          else if length ds > 1 then
            py_bind (print (FoundDevices ds)) (\<lambda>_.
            py_bind (input E ChooseDevice) (\<lambda>d.
            modify (\<lambda>s. s\<lparr>device := Some d\<rparr>)))
          else py_raise (SystemExit ''Could not find device'')))"

definition initialise :: "env \<Rightarrow> string option \<Rightarrow> unit action" where
  "initialise E dev =
     py_try
       (py_bind (select_device E dev) (\<lambda>_.
        py_bind (getattr device ''device'') (\<lambda>d.
        py_bind (command E (OpenResource d 2500)) (\<lambda>_.
        py_bind (modify (\<lambda>s. s\<lparr>inst := Some (Handle d)\<rparr>)) (\<lambda>_.
        py_bind (command E (WrapDriver (Handle d))) (\<lambda>_.
        py_bind (modify (\<lambda>s. s\<lparr>power_meter := Some (ThorlabsPM100 (Handle d))\<rparr>)) (\<lambda>_.
        py_bind (gets verbose) (\<lambda>v.
        if v then py_bind (getattr device ''device'') (\<lambda>d'. print (ConnectionSuccessful d'))
        else py_return ()))))))))
       (\<lambda>e. print (ConnectionUnsuccessful e))"

text \<open>One element of the comprehension, and the single reading: \<open>self.power_meter.read/self.conversion\<close>.\<close>

definition scaled_read :: "env \<Rightarrow> real action" where
  "scaled_read E =
     py_bind (getattr power_meter ''power_meter'') (\<lambda>_.
     py_bind (query E Read) (\<lambda>r.
     py_bind (getattr conversion ''conversion'') (\<lambda>c.
     py_div r c)))"

text \<open>\<open>[... for _ in range(n)]\<close>.\<close>

fun comprehension :: "env \<Rightarrow> nat \<Rightarrow> real list action" where
  "comprehension E 0 = py_return []"
| "comprehension E (Suc n) =
     py_bind (scaled_read E) (\<lambda>x.
     py_bind (comprehension E n) (\<lambda>xs.
     py_return (x # xs)))"

definition average :: "env \<Rightarrow> real list action" where
  "average E =
     py_bind (getattr n_averages ''n_averages'') (\<lambda>n.
     py_bind (comprehension E (nat n)) (\<lambda>data.
     py_bind (gets verbose) (\<lambda>v.
     py_bind
       (if v then
          py_bind (gets unit) (\<lambda>u.
          py_bind (print (AverageValue (round2 (mean data)) u)) (\<lambda>_.
          print (StandardDeviation (round2 (std data)) u)))
        else py_return ()) (\<lambda>_.
     py_return data))))"

definition auto_range :: "env \<Rightarrow> bool \<Rightarrow> unit action" where
  "auto_range E state =
     (if state then
        py_bind (getattr power_meter ''power_meter'') (\<lambda>_.
        py_bind (command E (SetRangeAuto ''ON'')) (\<lambda>_.
        print AutoRangeOn))
      else
        py_bind (getattr power_meter ''power_meter'') (\<lambda>_.
        py_bind (command E (SetRangeAuto ''OFF'')) (\<lambda>_.
        print AutoRangeOff)))"

definition get_max_power :: "env \<Rightarrow> real action" where
  "get_max_power E =
     py_bind (getattr power_meter ''power_meter'') (\<lambda>_. query E GetRangeUpper)"

definition set_samples :: "env \<Rightarrow> int \<Rightarrow> unit action" where
  "set_samples E n_samples =
     py_bind (getattr power_meter ''power_meter'') (\<lambda>_. command E (SetAverageCount n_samples))"

text \<open>What \<open>measure\<close> returns: a float, or the array of \<open>average\<close>.\<close>

datatype data = Scalar real | Array "real list"

definition measure_power :: "env \<Rightarrow> string \<Rightarrow> int \<Rightarrow> int \<Rightarrow> data action" where
  "measure_power E type sample_rate n =
     py_bind (set_samples E sample_rate) (\<lambda>_.
     py_bind (modify (\<lambda>s. s\<lparr>n_averages := Some n\<rparr>)) (\<lambda>_.
     py_bind (getattr power_meter ''power_meter'') (\<lambda>_.
     py_bind (command E ConfigureScalarPower) (\<lambda>_.
     if type = ''average'' then
       py_bind (average E) (\<lambda>d. py_return (Array d))
     else
       py_bind (scaled_read E) (\<lambda>x.
       py_bind (gets unit) (\<lambda>u.
       py_bind (print (PowerReading (round2 x) u)) (\<lambda>_.
       py_return (Scalar x))))))))"

definition bandwidth :: "string \<rightharpoonup> int" where
  "bandwidth = [''low'' \<mapsto> 1, ''high'' \<mapsto> 0]"

definition set_bandwidth :: "env \<Rightarrow> string \<Rightarrow> unit action" where
  "set_bandwidth E state =
     (case bandwidth state of
        None \<Rightarrow> print (InvalidState state)
      | Some b \<Rightarrow>
          py_try
            (py_bind (getattr power_meter ''power_meter'') (\<lambda>_.
             py_bind (command E (SetLpassState b)) (\<lambda>_.
             print (BandwidthSet state))))
            (\<lambda>e. print (ErrorOccurred e)))"

definition unit_types :: "string \<rightharpoonup> real" where
  "unit_types =
     [''nW'' \<mapsto> 1 / 10 ^ 9, ''uW'' \<mapsto> 1 / 10 ^ 6, ''mW'' \<mapsto> 1 / 10 ^ 3, ''W'' \<mapsto> 1, ''dBm'' \<mapsto> 1]"

text \<open>\<open>unit_types[key]\<close>.\<close>

definition subscript :: "(string \<rightharpoonup> real) \<Rightarrow> string \<Rightarrow> real action" where
  "subscript d k =
     (case d k of None \<Rightarrow> py_raise (Exception (KeyError k)) | Some v \<Rightarrow> py_return v)"

text \<open>
  \<open>set_units\<close>. The argument is adopted when it is truthy (neither None nor the empty
  string); the re-prompt and the assignment of \<open>unit_to_measure\<close> come before the
  \<open>try\<close>, the write to the instrument and the table lookup inside it.
\<close>

definition set_units :: "env \<Rightarrow> string option \<Rightarrow> unit action" where
  "set_units E arg =
     py_bind
       (case arg of
          None \<Rightarrow> py_return ()
        | Some u \<Rightarrow> if u \<noteq> [] then modify (\<lambda>s. s\<lparr>unit := u\<rparr>) else py_return ()) (\<lambda>_.
     py_bind (gets unit) (\<lambda>u0.
     py_bind
       (if unit_types u0 = None then
          py_bind (input E ChooseUnit) (\<lambda>t. modify (\<lambda>s. s\<lparr>unit := t\<rparr>))
        else py_return ()) (\<lambda>_.
     py_bind (gets unit) (\<lambda>u.
     py_bind
       (if u = ''dBm'' then modify (\<lambda>s. s\<lparr>unit_to_measure := Some ''DBM''\<rparr>)
        else modify (\<lambda>s. s\<lparr>unit_to_measure := Some ''W''\<rparr>)) (\<lambda>_.
     py_try
       (py_bind (getattr unit_to_measure ''unit_to_measure'') (\<lambda>m.
        py_bind (getattr power_meter ''power_meter'') (\<lambda>_.
        py_bind (command E (SetPowerUnit m)) (\<lambda>_.
        py_bind (gets unit) (\<lambda>u'.
        py_bind (subscript unit_types u') (\<lambda>c.
        py_bind (modify (\<lambda>s. s\<lparr>conversion := Some c\<rparr>)) (\<lambda>_.
        py_bind (gets verbose) (\<lambda>v.
        if v then print (UnitsSet u') else py_return ()))))))))
       (\<lambda>e. print (ErrorChangingUnit e)))))))"

definition set_wavelength :: "env \<Rightarrow> real \<Rightarrow> unit action" where
  "set_wavelength E wavelength =
     py_bind (getattr power_meter ''power_meter'') (\<lambda>_. command E (SetWavelength wavelength))"

subsection \<open>Sequences of calls\<close>

text \<open>
  A caller drives the controller through its methods. \<open>exec\<close> carries out one call and
  keeps the state it leaves, also when the call raised; \<open>run\<close> carries out a sequence.
  The states \<open>run\<close> reaches from \<open>init\<close> are the reachable ones.
\<close>

datatype call =
    Close
  | Initialise "string option"
  | Average
  | AutoRange bool
  | GetMaxPower
  | Measure string int int
  | SetBandwidth string
  | SetSamples int
  | SetUnits "string option"
  | SetWavelength real

fun exec :: "env \<Rightarrow> call \<Rightarrow> PM100 \<Rightarrow> PM100" where
  "exec E Close s = snd (close E s)"
| "exec E (Initialise dev) s = snd (initialise E dev s)"
| "exec E Average s = snd (average E s)"
| "exec E (AutoRange b) s = snd (auto_range E b s)"
| "exec E GetMaxPower s = snd (get_max_power E s)"
| "exec E (Measure ty rate n) s = snd (measure_power E ty rate n s)"
| "exec E (SetBandwidth b) s = snd (set_bandwidth E b s)"
| "exec E (SetSamples n) s = snd (set_samples E n s)"
| "exec E (SetUnits u) s = snd (set_units E u s)"
| "exec E (SetWavelength w) s = snd (set_wavelength E w s)"

fun run :: "env \<Rightarrow> call list \<Rightarrow> PM100 \<Rightarrow> PM100" where
  "run E [] s = s"
| "run E (c # cs) s = run E cs (exec E c s)"

fun is_SetUnits :: "call \<Rightarrow> bool" where
  "is_SetUnits (SetUnits u) = True"
| "is_SetUnits c = False"

subsection \<open>Vocabulary of the properties\<close>

text \<open>
  The unit symbol that \<open>set_units\<close> adopts before it looks the table up
  (\<open>if unit: self.unit = unit\<close>: an empty string counts as no argument), and the native
  mode the method assigns for a unit symbol.
\<close>

definition adopted :: "string option \<Rightarrow> PM100 \<Rightarrow> string" where
  "adopted arg s = (case arg of None \<Rightarrow> unit s | Some u \<Rightarrow> if u \<noteq> [] then u else unit s)"

definition native_mode :: "string \<Rightarrow> string" where
  "native_mode u = (if u = ''dBm'' then ''DBM'' else ''W'')"

text \<open>
  The unit symbols and the scale table as the specification gives them, to be compared
  with \<open>unit_types\<close>.
\<close>

definition valid_units :: "string set" where
  "valid_units = {''nW'', ''uW'', ''mW'', ''W'', ''dBm''}"

definition scale :: "string \<Rightarrow> real" where
  "scale u =
     (if u = ''nW'' then 1 / 10 ^ 9
      else if u = ''uW'' then 1 / 10 ^ 6
      else if u = ''mW'' then 1 / 10 ^ 3
      else 1)"

text \<open>
  What \<open>average\<close> prints for the data it returns.
\<close>

definition report :: "PM100 \<Rightarrow> real list \<Rightarrow> message list" where
  "report s data =
     (if verbose s then
        [AverageValue (round2 (mean data)) (unit s), StandardDeviation (round2 (std data)) (unit s)]
      else [])"

text \<open>
  The three fields that belong together (the unit symbol, the native mode and the scale
  factor), the actions that leave them alone, and their consistency as the specification
  words it.
\<close>

definition settings :: "PM100 \<Rightarrow> string \<times> string option \<times> real option" where
  "settings s = (unit s, unit_to_measure s, conversion s)"

definition keeps :: "'a action \<Rightarrow> bool" where
  "keeps m \<longleftrightarrow> (\<forall>s. settings (snd (m s)) = settings s)"


subsection \<open>Test benches\<close>

text \<open>
  Concrete environments and states on which the theorems below are exercised: one
  instrument at USB0 that reads 2 mW, an operator who types mW, and a transport that
  carries out every command (\<open>bench\<close>) or refuses the k-th one (\<open>bench_refusing k\<close>).
\<close>

definition bench :: env where
  "bench =
     \<lparr>resources = [''USB0''], ack = (\<lambda>k. None), reading = (\<lambda>k. Inr (1 / 500)),
      keyboard = (\<lambda>k. Inr ''mW'')\<rparr>"

definition bench_refusing :: "nat \<Rightarrow> env" where
  "bench_refusing n = bench\<lparr>ack := (\<lambda>k. if k = n then Some (DeviceError ''timeout'') else None)\<rparr>"

text \<open>The controller after \<open>PM100()\<close> and \<open>initialise('USB0')\<close> on the bench.\<close>

definition bench_pm :: PM100 where
  "bench_pm =
     \<lparr>devices = [''USB0''], unit = ''W'', verbose = True,
      device = Some ''USB0'', inst = Some (Handle ''USB0''),
      power_meter = Some (ThorlabsPM100 (Handle ''USB0'')), n_averages = None,
      unit_to_measure = None, conversion = None,
      sent = [OpenResource ''USB0'' 2500, WrapDriver (Handle ''USB0'')], prompts = [],
      printed = [ConnectionSuccessful ''USB0'']\<rparr>"

text \<open>
  An operator who types \<open>t\<close>; a bench with no instrument; a bench with two instruments
  where the operator picks the second.
\<close>

definition bench_typing :: "string \<Rightarrow> env" where
  "bench_typing t = bench\<lparr>keyboard := (\<lambda>k. Inr t)\<rparr>"



text \<open>
  The controller of the bench after \<open>set_units('W')\<close> and after \<open>set_units('mW')\<close>.
\<close>

definition bench_W :: PM100 where
  "bench_W =
     bench_pm\<lparr>unit_to_measure := Some ''W'', conversion := Some 1,
               sent := sent bench_pm @ [SetPowerUnit ''W''],
               printed := printed bench_pm @ [UnitsSet ''W'']\<rparr>"

definition bench_mW :: PM100 where
  "bench_mW =
     bench_pm\<lparr>unit := ''mW'', unit_to_measure := Some ''W'', conversion := Some (1 / 10 ^ 3),
               sent := sent bench_pm @ [SetPowerUnit ''W''],
               printed := printed bench_pm @ [UnitsSet ''mW'']\<rparr>"

section \<open>Properties\<close>

lemmas py_defs = py_return_def py_raise_def py_bind_def py_try_def gets_def modify_def
  getattr_def print_def command_def query_def input_def py_div_def subscript_def

lemma bench_pm_reached: "initialise bench (Some ''USB0'') (init bench True) = (Inr (), bench_pm)"
  by (simp add: initialise_def select_device_def py_defs init_def bench_def bench_pm_def)

subsection \<open>Fields that only \<open>set_units\<close> writes\<close>

lemma keeps_return: "keeps (py_return x)"
  by (simp add: keeps_def py_return_def)

lemma keeps_raise: "keeps (py_raise e)"
  by (simp add: keeps_def py_raise_def)

lemma keeps_gets: "keeps (gets f)"
  by (simp add: keeps_def gets_def)

lemma keeps_getattr: "keeps (getattr f name)"
  by (simp add: keeps_def getattr_def split: option.splits)

lemma keeps_print: "keeps (print m)"
  by (simp add: keeps_def print_def modify_def settings_def)

lemma keeps_command: "keeps (command E r)"
  by (simp add: keeps_def command_def settings_def split: option.splits)

lemma keeps_query: "keeps (query E r)"
  by (simp add: keeps_def query_def settings_def split: sum.splits)

lemma keeps_input: "keeps (input E p)"
  by (simp add: keeps_def input_def settings_def split: sum.splits)

lemma keeps_div: "keeps (py_div a b)"
  by (simp add: py_div_def keeps_return keeps_raise)

lemma keeps_modify: "(\<And>s. settings (f s) = settings s) \<Longrightarrow> keeps (modify f)"
  by (simp add: keeps_def modify_def)

lemma keeps_bind: "keeps m \<Longrightarrow> (\<And>x. keeps (f x)) \<Longrightarrow> keeps (py_bind m f)"
  by (auto simp add: keeps_def py_bind_def split: prod.splits sum.splits) (metis snd_conv)+

lemma keeps_try: "keeps m \<Longrightarrow> (\<And>e. keeps (h e)) \<Longrightarrow> keeps (py_try m h)"
  by (auto simp add: keeps_def py_try_def split: prod.splits sum.splits raised.splits) (metis snd_conv)+

lemma keeps_if: "(c \<Longrightarrow> keeps a) \<Longrightarrow> (\<not> c \<Longrightarrow> keeps b) \<Longrightarrow> keeps (if c then a else b)"
  by simp

lemmas keeps_intros = keeps_return keeps_raise keeps_gets keeps_getattr keeps_print
  keeps_command keeps_query keeps_input keeps_div keeps_bind keeps_try keeps_if

lemma keeps_scaled_read: "keeps (scaled_read E)"
  unfolding scaled_read_def by (intro keeps_intros)

lemma keeps_comprehension: "keeps (comprehension E n)"
  by (induction n) (auto intro!: keeps_intros keeps_scaled_read)

lemma keeps_average: "keeps (average E)"
  unfolding average_def by (intro keeps_intros keeps_comprehension)

lemma keeps_close: "keeps (close E)"
  unfolding close_def by (intro keeps_intros)

lemma keeps_select_device: "keeps (select_device E dev)"
  unfolding select_device_def
  by (cases dev) (auto intro!: keeps_intros keeps_modify simp: settings_def)

lemma keeps_initialise: "keeps (initialise E dev)"
  unfolding initialise_def
  by (intro keeps_intros keeps_select_device keeps_modify) (simp_all add: settings_def)

lemma keeps_auto_range: "keeps (auto_range E b)"
  unfolding auto_range_def by (intro keeps_intros)

lemma keeps_get_max_power: "keeps (get_max_power E)"
  unfolding get_max_power_def by (intro keeps_intros)

lemma keeps_set_samples: "keeps (set_samples E n)"
  unfolding set_samples_def by (intro keeps_intros)

lemma keeps_set_wavelength: "keeps (set_wavelength E w)"
  unfolding set_wavelength_def by (intro keeps_intros)

lemma keeps_set_bandwidth: "keeps (set_bandwidth E b)"
  unfolding set_bandwidth_def by (cases "bandwidth b") (auto intro!: keeps_intros)

lemma keeps_measure_power: "keeps (measure_power E ty rate n)"
  unfolding measure_power_def
  by (intro keeps_intros keeps_set_samples keeps_average keeps_scaled_read keeps_modify)
     (simp_all add: settings_def)

lemma exec_settings: "\<not> is_SetUnits c \<Longrightarrow> settings (exec E c s) = settings s"
  using keeps_close [of E] keeps_initialise [of E] keeps_average [of E] keeps_auto_range [of E]
    keeps_get_max_power [of E] keeps_measure_power [of E] keeps_set_bandwidth [of E]
    keeps_set_samples [of E] keeps_set_wavelength [of E]
  by (cases c) (simp_all add: keeps_def)

lemma run_settings: "\<forall>c\<in>set cs. \<not> is_SetUnits c \<Longrightarrow> settings (run E cs s) = settings s"
  by (induction cs arbitrary: s) (simp_all add: exec_settings)

subsection \<open>\<open>set_units\<close>, case by case\<close>

lemma unit_types_Nil: "unit_types [] = None"
  by (simp add: unit_types_def)

lemma unit_types_scale: "u \<in> valid_units \<Longrightarrow> unit_types u = Some (scale u)"
  by (auto simp add: valid_units_def unit_types_def scale_def)

lemma unit_types_dom: "unit_types u = Some c \<Longrightarrow> u \<in> valid_units"
  by (auto simp add: valid_units_def unit_types_def split: if_splits)

lemma scale_nonzero: "scale u \<noteq> 0"
  by (simp add: scale_def)

lemma set_units_adopt: "set_units E arg s = set_units E None (s\<lparr>unit := adopted arg s\<rparr>)"
proof (cases "arg = None \<or> arg = Some []")
  case True
  then have "adopted arg s = unit s"
    by (auto simp add: adopted_def)
  moreover from True have "set_units E arg s = set_units E None s"
    by (auto simp add: set_units_def)
  ultimately show ?thesis
    by simp
next
  case False
  then obtain u where u: "arg = Some u" "u \<noteq> []"
    by (cases arg) auto
  then have "adopted arg s = u"
    by (simp add: adopted_def)
  moreover from u have "set_units E arg s = set_units E None (s\<lparr>unit := u\<rparr>)"
    by (simp add: set_units_def py_bind_def modify_def py_return_def)
  ultimately show ?thesis
    by simp
qed

lemma set_units_None_known_ok:
  "unit_types (unit s) = Some c \<Longrightarrow> power_meter s = Some pm \<Longrightarrow> ack E (length (sent s)) = None \<Longrightarrow>
   set_units E None s =
     (Inr (), s\<lparr>unit_to_measure := Some (native_mode (unit s)),
               conversion := Some c,
               sent := sent s @ [SetPowerUnit (native_mode (unit s))],
               printed := printed s @ (if verbose s then [UnitsSet (unit s)] else [])\<rparr>)"
  by (auto simp add: set_units_def py_defs native_mode_def)

lemma set_units_None_known_refused:
  "unit_types (unit s) = Some c \<Longrightarrow> power_meter s = Some pm \<Longrightarrow> ack E (length (sent s)) = Some e \<Longrightarrow>
   set_units E None s =
     (Inr (), s\<lparr>unit_to_measure := Some (native_mode (unit s)),
               sent := sent s @ [SetPowerUnit (native_mode (unit s))],
               printed := printed s @ [ErrorChangingUnit e]\<rparr>)"
  by (auto simp add: set_units_def py_defs native_mode_def)

lemma set_units_None_known_absent:
  "unit_types (unit s) = Some c \<Longrightarrow> power_meter s = None \<Longrightarrow>
   set_units E None s =
     (Inr (), s\<lparr>unit_to_measure := Some (native_mode (unit s)),
               printed := printed s @ [ErrorChangingUnit (AttributeError ''power_meter'')]\<rparr>)"
  by (auto simp add: set_units_def py_defs native_mode_def)

lemma set_units_None_prompt_eof:
  "unit_types (unit s) = None \<Longrightarrow> keyboard E (length (prompts s)) = Inl e \<Longrightarrow>
   set_units E None s = (Inl (Exception e), s\<lparr>prompts := prompts s @ [ChooseUnit]\<rparr>)"
  by (simp add: set_units_def py_defs)

lemma set_units_None_prompt_absent:
  "unit_types (unit s) = None \<Longrightarrow> keyboard E (length (prompts s)) = Inr t \<Longrightarrow>
   power_meter s = None \<Longrightarrow>
   set_units E None s =
     (Inr (), s\<lparr>unit := t, unit_to_measure := Some (native_mode t),
               prompts := prompts s @ [ChooseUnit],
               printed := printed s @ [ErrorChangingUnit (AttributeError ''power_meter'')]\<rparr>)"
  by (auto simp add: set_units_def py_defs native_mode_def)

lemma set_units_None_prompt_refused:
  "unit_types (unit s) = None \<Longrightarrow> keyboard E (length (prompts s)) = Inr t \<Longrightarrow>
   power_meter s = Some pm \<Longrightarrow> ack E (length (sent s)) = Some e \<Longrightarrow>
   set_units E None s =
     (Inr (), s\<lparr>unit := t, unit_to_measure := Some (native_mode t),
               sent := sent s @ [SetPowerUnit (native_mode t)],
               prompts := prompts s @ [ChooseUnit],
               printed := printed s @ [ErrorChangingUnit e]\<rparr>)"
  by (auto simp add: set_units_def py_defs native_mode_def)

lemma set_units_None_prompt_invalid:
  "unit_types (unit s) = None \<Longrightarrow> keyboard E (length (prompts s)) = Inr t \<Longrightarrow>
   power_meter s = Some pm \<Longrightarrow> ack E (length (sent s)) = None \<Longrightarrow> unit_types t = None \<Longrightarrow>
   set_units E None s =
          (Inr (), s\<lparr>unit := t, unit_to_measure := Some (native_mode t),
               sent := sent s @ [SetPowerUnit (native_mode t)],
               prompts := prompts s @ [ChooseUnit],
               printed := printed s @ [ErrorChangingUnit (KeyError t)]\<rparr>)"
  by (auto simp add: set_units_def py_defs native_mode_def)

lemma set_units_None_prompt_valid:
  "unit_types (unit s) = None \<Longrightarrow> keyboard E (length (prompts s)) = Inr t \<Longrightarrow>
   power_meter s = Some pm \<Longrightarrow> ack E (length (sent s)) = None \<Longrightarrow> unit_types t = Some c \<Longrightarrow>
   set_units E None s =
          (Inr (), s\<lparr>unit := t, unit_to_measure := Some (native_mode t), conversion := Some c,
               sent := sent s @ [SetPowerUnit (native_mode t)],
               prompts := prompts s @ [ChooseUnit],
               printed := printed s @ (if verbose s then [UnitsSet t] else [])\<rparr>)"
  by (auto simp add: set_units_def py_defs native_mode_def)

lemma scaled_read_Inr:
  "scaled_read E s = (Inr x, s') \<Longrightarrow>
   s' = s\<lparr>sent := sent s @ [Read]\<rparr> \<and> power_meter s \<noteq> None \<and>
   (\<exists>raw c. reading E (length (sent s)) = Inr raw \<and> conversion s = Some c \<and> c \<noteq> 0 \<and> x = raw / c)"
  by (auto simp add: scaled_read_def py_defs split: option.splits sum.splits if_splits)

lemma scaled_read_ok:
  "power_meter s = Some pm \<Longrightarrow> conversion s = Some c \<Longrightarrow> c \<noteq> 0 \<Longrightarrow>
   reading E (length (sent s)) = Inr raw \<Longrightarrow>
   scaled_read E s = (Inr (raw / c), s\<lparr>sent := sent s @ [Read]\<rparr>)"
  by (simp add: scaled_read_def py_defs)

lemma comprehension_Suc:
  "comprehension E (Suc n) s =
     (case scaled_read E s of
        (Inl e, s1) \<Rightarrow> (Inl e, s1)
      | (Inr x, s1) \<Rightarrow>
          (case comprehension E n s1 of
             (Inl e, s2) \<Rightarrow> (Inl e, s2)
           | (Inr xs, s2) \<Rightarrow> (Inr (x # xs), s2)))"
  by (simp add: py_bind_def py_return_def split: prod.splits sum.splits)

lemma comprehension_Inr:
  "comprehension E n s = (Inr xs, s') \<Longrightarrow>
   s' = s\<lparr>sent := sent s @ replicate n Read\<rparr> \<and> length xs = n \<and>
   (\<forall>i<n. \<exists>raw c. reading E (length (sent s) + i) = Inr raw \<and> conversion s = Some c \<and>
      c \<noteq> 0 \<and> xs ! i = raw / c)"
proof (induction n arbitrary: s xs)
  case 0
  then show ?case by (simp add: py_return_def)
next
  case (Suc n)
  from Suc.prems obtain x s1 ys where
    x: "scaled_read E s = (Inr x, s1)" and ys: "comprehension E n s1 = (Inr ys, s')"
    and xs: "xs = x # ys"
    by (auto simp add: comprehension_Suc simp del: comprehension.simps split: prod.splits sum.splits)
  from scaled_read_Inr [OF x] obtain raw c where
    s1: "s1 = s\<lparr>sent := sent s @ [Read]\<rparr>" and
    r: "reading E (length (sent s)) = Inr raw" "conversion s = Some c" "c \<noteq> 0" "x = raw / c"
    by blast
  from Suc.IH [OF ys] have
    s': "s' = s1\<lparr>sent := sent s1 @ replicate n Read\<rparr>" and len: "length ys = n" and
    rest: "\<forall>i<n. \<exists>raw c. reading E (length (sent s1) + i) = Inr raw \<and> conversion s1 = Some c \<and>
      c \<noteq> 0 \<and> ys ! i = raw / c"
    by blast+
  have "s' = s\<lparr>sent := sent s @ replicate (Suc n) Read\<rparr>"
    using s' s1 by simp
  moreover have "length xs = Suc n"
    using xs len by simp
  moreover have "\<exists>raw c. reading E (length (sent s) + i) = Inr raw \<and> conversion s = Some c \<and>
      c \<noteq> 0 \<and> xs ! i = raw / c" if "i < Suc n" for i
  proof (cases i)
    case 0
    with r xs show ?thesis by simp
  next
    case (Suc j)
    with that have "j < n" by simp
    with rest s1 Suc xs show ?thesis by simp
  qed
  ultimately show ?case by blast
qed

lemma comprehension_ok:
  "power_meter s = Some pm \<Longrightarrow> conversion s = Some c \<Longrightarrow> c \<noteq> 0 \<Longrightarrow>
   \<forall>i<n. \<exists>raw. reading E (length (sent s) + i) = Inr raw \<Longrightarrow>
   \<exists>xs. comprehension E n s = (Inr xs, s\<lparr>sent := sent s @ replicate n Read\<rparr>)"
proof (induction n arbitrary: s)
  case 0
  then show ?case by (simp add: py_return_def)
next
  case (Suc n)
  from Suc.prems(4) obtain raw where raw: "reading E (length (sent s)) = Inr raw"
    by force
  let ?s1 = "s\<lparr>sent := sent s @ [Read]\<rparr>"
  have x: "scaled_read E s = (Inr (raw / c), ?s1)"
    using scaled_read_ok [OF Suc.prems(1-3) raw] .
  have "\<forall>i<n. \<exists>raw. reading E (length (sent ?s1) + i) = Inr raw"
  proof (intro allI impI)
    fix i assume "i < n"
    then have "Suc i < Suc n" by simp
    with Suc.prems(4) have "\<exists>raw. reading E (length (sent s) + Suc i) = Inr raw" by blast
    then show "\<exists>raw. reading E (length (sent ?s1) + i) = Inr raw" by simp
  qed
  with Suc.IH [of ?s1] Suc.prems(1-3) obtain ys where
    "comprehension E n ?s1 = (Inr ys, ?s1\<lparr>sent := sent ?s1 @ replicate n Read\<rparr>)"
    by auto
  with x show ?case
    by (simp add: comprehension_Suc del: comprehension.simps)
qed

lemma average_unfold:
  "n_averages s = Some N \<Longrightarrow>
   average E s =
     (case comprehension E (nat N) s of
        (Inl e, s1) \<Rightarrow> (Inl e, s1)
      | (Inr data, s1) \<Rightarrow> (Inr data, s1\<lparr>printed := printed s1 @ report s1 data\<rparr>))"
  by (simp add: average_def py_defs report_def split: prod.splits sum.splits)

lemma average_Inr:
  assumes "average E s = (Inr data, s')"
  shows "\<exists>N. n_averages s = Some N \<and> length data = nat N \<and>
     s' = s\<lparr>sent := sent s @ replicate (nat N) Read, printed := printed s @ report s data\<rparr> \<and>
     (\<forall>i<nat N. \<exists>raw c. reading E (length (sent s) + i) = Inr raw \<and> conversion s = Some c \<and>
        c \<noteq> 0 \<and> data ! i = raw / c)"
proof -
  from assms obtain N where N: "n_averages s = Some N"
    by (cases "n_averages s") (simp_all add: average_def py_defs)
  from assms obtain s1 where c: "comprehension E (nat N) s = (Inr data, s1)"
    and s': "s' = s1\<lparr>printed := printed s1 @ report s1 data\<rparr>"
    by (auto simp add: average_unfold [OF N] split: prod.splits sum.splits)
  from comprehension_Inr [OF c] s' N show ?thesis
    by (simp add: report_def)
qed

lemma average_ok:
  assumes "n_averages s = Some N" "power_meter s = Some pm" "conversion s = Some c" "c \<noteq> 0"
    "\<forall>i<nat N. \<exists>raw. reading E (length (sent s) + i) = Inr raw"
  shows "\<exists>data. average E s =
     (Inr data, s\<lparr>sent := sent s @ replicate (nat N) Read, printed := printed s @ report s data\<rparr>)"
proof -
  from comprehension_ok [OF assms(2-5)] obtain xs where
    "comprehension E (nat N) s = (Inr xs, s\<lparr>sent := sent s @ replicate (nat N) Read\<rparr>)"
    by blast
  then show ?thesis
    by (simp add: average_unfold [OF assms(1)] report_def)
qed

lemma average_absent: "n_averages s = None \<Longrightarrow> \<exists>e. average E s = (Inl e, s)"
  by (simp add: average_def py_defs)

lemma measure_power_unfold:
  "power_meter s = Some pm \<Longrightarrow> ack E (length (sent s)) = None \<Longrightarrow>
   ack E (Suc (length (sent s))) = None \<Longrightarrow>
   s2 = s\<lparr>n_averages := Some n, sent := sent s @ [SetAverageCount rate, ConfigureScalarPower]\<rparr> \<Longrightarrow>
   measure_power E ty rate n s =
     (if ty = ''average'' then
        (case average E s2 of
           (Inl e, t) \<Rightarrow> (Inl e, t)
         | (Inr d, t) \<Rightarrow> (Inr (Array d), t))
      else
        (case scaled_read E s2 of
           (Inl e, t) \<Rightarrow> (Inl e, t)
         | (Inr x, t) \<Rightarrow>
             (Inr (Scalar x), t\<lparr>printed := printed t @ [PowerReading (round2 x) (unit t)]\<rparr>)))"
  by (simp add: measure_power_def set_samples_def py_bind_def py_return_def getattr_def
      command_def modify_def gets_def print_def split: prod.splits sum.splits)

lemma measure_power_Inr_pre:
  "measure_power E ty rate n s = (Inr d, s') \<Longrightarrow>
   power_meter s \<noteq> None \<and> ack E (length (sent s)) = None \<and> ack E (Suc (length (sent s))) = None"
  by (auto simp add: measure_power_def set_samples_def py_bind_def getattr_def command_def modify_def
      split: option.splits)

subsection \<open>\<open>initialise\<close>, case by case\<close>

lemma select_device_given: "select_device E (Some d) s = (Inr (), s\<lparr>device := Some d\<rparr>)"
  by (simp add: select_device_def modify_def)




lemma initialise_unfold:
  "initialise E dev s =
     (case select_device E dev s of
        (Inl (SystemExit m), s1) \<Rightarrow> (Inl (SystemExit m), s1)
      | (Inl (Exception e), s1) \<Rightarrow> (Inr (), s1\<lparr>printed := printed s1 @ [ConnectionUnsuccessful e]\<rparr>)
      | (Inr _, s1) \<Rightarrow>
          (case device s1 of
             None \<Rightarrow>
               (Inr (), s1\<lparr>printed := printed s1 @ [ConnectionUnsuccessful (AttributeError ''device'')]\<rparr>)
           | Some d \<Rightarrow>
               (case ack E (length (sent s1)) of
                  Some e \<Rightarrow>
                    (Inr (), s1\<lparr>sent := sent s1 @ [OpenResource d 2500],
                               printed := printed s1 @ [ConnectionUnsuccessful e]\<rparr>)
                | None \<Rightarrow>
                    (case ack E (Suc (length (sent s1))) of
                       Some e \<Rightarrow>
                         (Inr (), s1\<lparr>inst := Some (Handle d),
                                    sent := sent s1 @ [OpenResource d 2500, WrapDriver (Handle d)],
                                    printed := printed s1 @ [ConnectionUnsuccessful e]\<rparr>)
                     | None \<Rightarrow>
                         (Inr (), s1\<lparr>inst := Some (Handle d),
                                    power_meter := Some (ThorlabsPM100 (Handle d)),
                                    sent := sent s1 @ [OpenResource d 2500, WrapDriver (Handle d)],
                                    printed := printed s1 @
                                      (if verbose s1 then [ConnectionSuccessful d] else [])\<rparr>)))))"
proof -
  obtain r s1 where sel: "select_device E dev s = (r, s1)"
    by (cases "select_device E dev s")
  show ?thesis
  proof (cases r)
    case (Inl x)
    with sel show ?thesis
      by (cases x) (simp_all add: initialise_def py_defs)
  next
    case (Inr u)
    show ?thesis
    proof (cases "device s1")
      case None
      with sel Inr show ?thesis
        by (simp add: initialise_def py_defs)
    next
      case d: (Some d)
      show ?thesis
      proof (cases "ack E (length (sent s1))")
        case (Some e)
        with sel Inr d show ?thesis
          by (simp add: initialise_def py_defs)
      next
        case None
        with sel Inr d show ?thesis
          by (cases "ack E (Suc (length (sent s1)))") (simp_all add: initialise_def py_defs)
      qed
    qed
  qed
qed





subsection \<open>\<open>set_units\<close> in one equation\<close>

lemma set_units_unfold:
  "set_units E arg s =
     (case (if unit_types (adopted arg s) = None then
              (case keyboard E (length (prompts s)) of
                 Inl e \<Rightarrow> Inl e
               | Inr t \<Rightarrow> Inr (t, [ChooseUnit]))
            else Inr (adopted arg s, [])) of
        Inl e \<Rightarrow>
          (Inl (Exception e), s\<lparr>unit := adopted arg s, prompts := prompts s @ [ChooseUnit]\<rparr>)
      | Inr (u, ps) \<Rightarrow>
          (case power_meter s of
             None \<Rightarrow>
               (Inr (), s\<lparr>unit := u, unit_to_measure := Some (native_mode u),
                          prompts := prompts s @ ps,
                          printed := printed s @ [ErrorChangingUnit (AttributeError ''power_meter'')]\<rparr>)
           | Some pm \<Rightarrow>
               (case ack E (length (sent s)) of
                  Some e \<Rightarrow>
                    (Inr (), s\<lparr>unit := u, unit_to_measure := Some (native_mode u),
                               sent := sent s @ [SetPowerUnit (native_mode u)],
                               prompts := prompts s @ ps,
                               printed := printed s @ [ErrorChangingUnit e]\<rparr>)
                | None \<Rightarrow>
                    (case unit_types u of
                       None \<Rightarrow>
                         (Inr (), s\<lparr>unit := u, unit_to_measure := Some (native_mode u),
                                    sent := sent s @ [SetPowerUnit (native_mode u)],
                                    prompts := prompts s @ ps,
                                    printed := printed s @ [ErrorChangingUnit (KeyError u)]\<rparr>)
                     | Some c \<Rightarrow>
                         (Inr (), s\<lparr>unit := u, unit_to_measure := Some (native_mode u),
                                    conversion := Some c,
                                    sent := sent s @ [SetPowerUnit (native_mode u)],
                                    prompts := prompts s @ ps,
                                    printed := printed s @
                                      (if verbose s then [UnitsSet u] else [])\<rparr>)))))"
proof -
  let ?s0 = "s\<lparr>unit := adopted arg s\<rparr>"
  have eq: "set_units E arg s = set_units E None ?s0"
    by (rule set_units_adopt)
  show ?thesis
  proof (cases "unit_types (adopted arg s)")
    case None
    then have n0: "unit_types (unit ?s0) = None" by simp
    show ?thesis
    proof (cases "keyboard E (length (prompts s))")
      case (Inl e)
      then have "keyboard E (length (prompts ?s0)) = Inl e" by simp
      from set_units_None_prompt_eof [OF n0 this] None Inl eq show ?thesis by simp
    next
      case (Inr t)
      then have k: "keyboard E (length (prompts ?s0)) = Inr t" by simp
      show ?thesis
      proof (cases "power_meter s")
        case pn: None
        then have "power_meter ?s0 = None" by simp
        from set_units_None_prompt_absent [OF n0 k this] None Inr pn eq show ?thesis by simp
      next
        case pm: (Some pm)
        then have p: "power_meter ?s0 = Some pm" by simp
        show ?thesis
        proof (cases "ack E (length (sent s))")
          case (Some e)
          then have "ack E (length (sent ?s0)) = Some e" by simp
          from set_units_None_prompt_refused [OF n0 k p this] None Inr pm Some eq
          show ?thesis by simp
        next
          case an: None
          then have a: "ack E (length (sent ?s0)) = None" by simp
          show ?thesis
          proof (cases "unit_types t")
            case tn: None
            from set_units_None_prompt_invalid [OF n0 k p a tn] None Inr pm an tn eq
            show ?thesis by simp
          next
            case tc: (Some c)
            from set_units_None_prompt_valid [OF n0 k p a tc] None Inr pm an tc eq
            show ?thesis by simp
          qed
        qed
      qed
    qed
  next
    case (Some c)
    then have c0: "unit_types (unit ?s0) = Some c" by simp
    show ?thesis
    proof (cases "power_meter s")
      case pn: None
      then have "power_meter ?s0 = None" by simp
      from set_units_None_known_absent [OF c0 this] Some pn eq show ?thesis by simp
    next
      case pm: (Some pm)
      then have p: "power_meter ?s0 = Some pm" by simp
      show ?thesis
      proof (cases "ack E (length (sent s))")
        case e: (Some e)
        then have "ack E (length (sent ?s0)) = Some e" by simp
        from set_units_None_known_refused [OF c0 p this] Some pm e eq show ?thesis by simp
      next
        case an: None
        then have "ack E (length (sent ?s0)) = None" by simp
        from set_units_None_known_ok [OF c0 p this] Some pm an eq show ?thesis by simp
      qed
    qed
  qed
qed


lemma set_units_prompts:
  "unit_types (adopted arg s) = None \<Longrightarrow> prompts (snd (set_units E arg s)) = prompts s @ [ChooseUnit]"
  by (auto simp add: set_units_unfold split: if_splits sum.splits option.splits)

lemma set_units_no_prompt:
  "unit_types (adopted arg s) \<noteq> None \<Longrightarrow> prompts (snd (set_units E arg s)) = prompts s"
  by (auto simp add: set_units_unfold split: if_splits sum.splits option.splits)



subsection \<open>What \<open>measure\<close> returns\<close>

lemma measure_single_Inr:
  assumes "measure_power E ty rate n s = (Inr d, s')" "ty \<noteq> ''average''"
  shows "\<exists>raw c. reading E (length (sent s) + 2) = Inr raw \<and> conversion s = Some c \<and> c \<noteq> 0 \<and>
     d = Scalar (raw / c) \<and>
     s' = s\<lparr>n_averages := Some n,
            sent := sent s @ [SetAverageCount rate, ConfigureScalarPower, Read],
            printed := printed s @ [PowerReading (round2 (raw / c)) (unit s)]\<rparr>"
proof -
  from measure_power_Inr_pre [OF assms(1)] obtain pm where
    pre: "power_meter s = Some pm" "ack E (length (sent s)) = None"
      "ack E (Suc (length (sent s))) = None"
    by auto
  let ?s2 = "s\<lparr>n_averages := Some n, sent := sent s @ [SetAverageCount rate, ConfigureScalarPower]\<rparr>"
  from assms measure_power_unfold [where ?s2.0 = ?s2 and n = n and rate = rate and ty = ty, OF pre]
  obtain x t where x: "scaled_read E ?s2 = (Inr x, t)" and d: "d = Scalar x"
    and s': "s' = t\<lparr>printed := printed t @ [PowerReading (round2 x) (unit t)]\<rparr>"
    by (auto split: prod.splits sum.splits)
  from scaled_read_Inr [OF x] d s' show ?thesis
    by auto
qed

lemma measure_average_Inr:
  assumes "measure_power E ''average'' rate n s = (Inr d, s')"
  shows "\<exists>data. d = Array data \<and> length data = nat n \<and>
     s' = s\<lparr>n_averages := Some n,
            sent := sent s @ [SetAverageCount rate, ConfigureScalarPower] @ replicate (nat n) Read,
            printed := printed s @ report s data\<rparr> \<and>
     (\<forall>i<nat n. \<exists>raw c. reading E (length (sent s) + 2 + i) = Inr raw \<and>
        conversion s = Some c \<and> c \<noteq> 0 \<and> data ! i = raw / c)"
proof -
  from measure_power_Inr_pre [OF assms(1)] obtain pm where
    pre: "power_meter s = Some pm" "ack E (length (sent s)) = None"
      "ack E (Suc (length (sent s))) = None"
    by auto
  let ?s2 = "s\<lparr>n_averages := Some n, sent := sent s @ [SetAverageCount rate, ConfigureScalarPower]\<rparr>"
  from assms measure_power_unfold [where ?s2.0 = ?s2 and n = n and rate = rate and ty = "''average''", OF pre]
  obtain data where a: "average E ?s2 = (Inr data, s')" and d: "d = Array data"
    by (auto split: prod.splits sum.splits)
  from average_Inr [OF a] d show ?thesis
    by (auto simp add: report_def)
qed

lemma measure_power_n_averages:
  assumes "measure_power E ty rate n s = (Inr d, s')"
  shows "n_averages s' = Some n"
proof (cases "ty = ''average''")
  case True
  with measure_average_Inr [of E rate n s d s'] assms show ?thesis by auto
next
  case False
  with measure_single_Inr [OF assms] show ?thesis by auto
qed

subsection \<open>Runs on the bench\<close>

lemma bench_refusing_pm:
  "2 \<le> k \<Longrightarrow> run (bench_refusing k) [Initialise (Some ''USB0'')] (init (bench_refusing k) True) = bench_pm"
  by (simp add: initialise_unfold select_device_given init_def bench_refusing_def bench_def bench_pm_def)

lemma bench_refusing_W:
  "3 \<le> k \<Longrightarrow> exec (bench_refusing k) (SetUnits (Some ''W'')) bench_pm = bench_W"
  by (simp add: set_units_unfold adopted_def unit_types_def native_mode_def bench_refusing_def
      bench_def bench_pm_def bench_W_def)


lemma round2_2: "round2 2 = 2"
  by (simp add: round2_def rint_def Let_def)

lemma round2_0: "round2 0 = 0"
  by (simp add: round2_def rint_def Let_def)

lemma mean_222: "mean [2, 2, 2] = 2"
  by (simp add: mean_def)

lemma std_222: "std [2, 2, 2] = 0"
  by (simp add: std_def mean_def)

lemma bench_single:
  "power_meter s \<noteq> None \<Longrightarrow> conversion s = Some (1 / 10 ^ 3) \<Longrightarrow>
   measure_power bench ''single'' rate n s =
     (Inr (Scalar 2),
      s\<lparr>n_averages := Some n,
        sent := sent s @ [SetAverageCount rate, ConfigureScalarPower, Read],
        printed := printed s @ [PowerReading 2 (unit s)]\<rparr>)"
  by (auto simp add: measure_power_def set_samples_def scaled_read_def py_defs bench_def round2_2)

lemma bench_comprehension:
  "power_meter s \<noteq> None \<Longrightarrow> conversion s = Some (1 / 10 ^ 3) \<Longrightarrow>
   comprehension bench 3 s = (Inr [2, 2, 2], s\<lparr>sent := sent s @ [Read, Read, Read]\<rparr>)"
  by (auto simp add: numeral_3_eq_3 scaled_read_def py_defs bench_def)

lemma bench_average:
  assumes "power_meter s \<noteq> None" "conversion s = Some (1 / 10 ^ 3)" "n_averages s = Some 3"
  shows "average bench s =
     (Inr [2, 2, 2],
      s\<lparr>sent := sent s @ [Read, Read, Read],
        printed := printed s @
          (if verbose s then [AverageValue 2 (unit s), StandardDeviation 0 (unit s)] else [])\<rparr>)"
  using average_unfold [OF assms(3), of bench] bench_comprehension [OF assms(1,2)]
  by (simp add: report_def mean_222 std_222 round2_2 round2_0)

lemma bench_measure_average:
  assumes "power_meter s \<noteq> None" "conversion s = Some (1 / 10 ^ 3)"
  shows "measure_power bench ''average'' rate 3 s =
     (Inr (Array [2, 2, 2]),
      s\<lparr>n_averages := Some 3,
        sent := sent s @ [SetAverageCount rate, ConfigureScalarPower, Read, Read, Read],
        printed := printed s @
          (if verbose s then [AverageValue 2 (unit s), StandardDeviation 0 (unit s)] else [])\<rparr>)"
proof -
  let ?s2 = "s\<lparr>n_averages := Some 3, sent := sent s @ [SetAverageCount rate, ConfigureScalarPower]\<rparr>"
  from assms(1) obtain pm where pm: "power_meter s = Some pm"
    by auto
  have pre: "ack bench (length (sent s)) = None" "ack bench (Suc (length (sent s))) = None"
    by (simp_all add: bench_def)
  have "power_meter ?s2 \<noteq> None" "conversion ?s2 = Some (1 / 10 ^ 3)" "n_averages ?s2 = Some 3"
    using assms by simp_all
  from bench_average [OF this]
    measure_power_unfold [where ?s2.0 = ?s2 and n = 3 and rate = rate and ty = "''average''", OF pm pre]
  show ?thesis
    by simp
qed




section \<open>The claims\<close>

subsection \<open>Scaled readings\<close>

text \<open>
  C1. Let \<open>u\<close> be one of nW, uW, mW, W, dBm, and let \<open>set_units(u)\<close> succeed: the
  driver is there and the transport acknowledges the write. Then, whatever calls other
  than \<open>set_units\<close> follow, every value that \<open>measure\<close> returns for a single reading,
  every element of the array that \<open>measure(type='average')\<close> returns and every element
  of the array that \<open>average\<close> returns is the raw reading of the instrument divided by
  \<open>scale u\<close>, the table 1e-9, 1e-6, 1e-3, 1, 1. The request number \<open>k\<close> on the
  transport is answered by \<open>reading E k\<close>, and \<open>measure\<close> sends two configuration
  requests before its first read. Python floats are taken as reals.
\<close>

theorem readings_scaled_by_unit:
  assumes "u \<in> valid_units" "power_meter s \<noteq> None" "ack E (length (sent s)) = None"
    and "\<forall>c\<in>set cs. \<not> is_SetUnits c"
    and "s1 = run E cs (snd (set_units E (Some u) s))"
  shows "(measure_power E ty rate n s1 = (Inr (Scalar x), s2) \<longrightarrow>
            (\<exists>raw. reading E (length (sent s1) + 2) = Inr raw \<and> x = raw / scale u)) \<and>
         (measure_power E ty rate n s1 = (Inr (Array xs), s2) \<longrightarrow>
            (\<forall>i<length xs. \<exists>raw. reading E (length (sent s1) + 2 + i) = Inr raw \<and>
               xs ! i = raw / scale u)) \<and>
         (average E s1 = (Inr data, s3) \<longrightarrow>
            (\<forall>i<length data. \<exists>raw. reading E (length (sent s1) + i) = Inr raw \<and>
               data ! i = raw / scale u))"
proof -
  from assms(1) have "u \<noteq> []"
    by (auto simp add: valid_units_def)
  with assms(1) have "unit_types (adopted (Some u) s) = Some (scale u)"
    by (simp add: adopted_def unit_types_scale)
  with assms(2,3) have "conversion (snd (set_units E (Some u) s)) = Some (scale u)"
    by (auto simp add: set_units_unfold split: option.splits)
  moreover from run_settings [OF assms(4), of E "snd (set_units E (Some u) s)"] assms(5)
  have "conversion s1 = conversion (snd (set_units E (Some u) s))"
    by (simp add: settings_def)
  ultimately have c: "conversion s1 = Some (scale u)"
    by simp
  have single: "\<exists>raw. reading E (length (sent s1) + 2) = Inr raw \<and> x = raw / scale u"
    if m: "measure_power E ty rate n s1 = (Inr (Scalar x), s2)"
  proof (cases "ty = ''average''")
    case True
    with measure_average_Inr [of E rate n s1 "Scalar x" s2] m show ?thesis by auto
  next
    case False
    from measure_single_Inr [OF m False] c show ?thesis by auto
  qed
  have array: "\<forall>i<length xs. \<exists>raw. reading E (length (sent s1) + 2 + i) = Inr raw \<and>
               xs ! i = raw / scale u"
    if m: "measure_power E ty rate n s1 = (Inr (Array xs), s2)"
  proof (cases "ty = ''average''")
    case True
    with measure_average_Inr [of E rate n s1 "Array xs" s2] m c show ?thesis by auto
  next
    case False
    from measure_single_Inr [OF m False] show ?thesis by auto
  qed
  have avg: "\<forall>i<length data. \<exists>raw. reading E (length (sent s1) + i) = Inr raw \<and>
               data ! i = raw / scale u"
    if a: "average E s1 = (Inr data, s3)"
    using average_Inr [OF a] c by auto
  from single array avg show ?thesis
    by blast
qed

theorem readings_scaled_by_unit_witness:
  "''mW'' \<in> valid_units \<and> power_meter bench_pm \<noteq> None \<and>
   ack bench (length (sent bench_pm)) = None \<and>
   \<not> is_SetUnits (SetBandwidth ''medium'') \<and>
   fst (measure_power bench ''single'' 5 3
     (run bench [SetBandwidth ''medium''] (snd (set_units bench (Some ''mW'') bench_pm)))) =
     Inr (Scalar 2) \<and>
   (\<exists>raw. reading bench
      (length (sent (run bench [SetBandwidth ''medium'']
         (snd (set_units bench (Some ''mW'') bench_pm)))) + 2) = Inr raw \<and>
      2 = raw / scale ''mW'')"
proof -
  let ?s1 = "run bench [SetBandwidth ''medium''] (snd (set_units bench (Some ''mW'') bench_pm))"
  have a: "''mW'' \<in> valid_units"
    by (simp add: valid_units_def)
  have b: "power_meter bench_pm \<noteq> None"
    by (simp add: bench_pm_def)
  have c: "ack bench (length (sent bench_pm)) = None"
    by (simp add: bench_def)
  have d: "\<forall>c\<in>set [SetBandwidth ''medium'']. \<not> is_SetUnits c"
    by simp
  have s1: "?s1 = bench_mW\<lparr>printed := printed bench_mW @ [InvalidState ''medium'']\<rparr>"
    by (simp add: set_units_unfold adopted_def unit_types_def native_mode_def set_bandwidth_def
        bandwidth_def print_def modify_def bench_def bench_pm_def bench_mW_def)
  have "power_meter ?s1 \<noteq> None" "conversion ?s1 = Some (1 / 10 ^ 3)"
    unfolding s1 by (simp_all add: bench_mW_def bench_pm_def)
  from bench_single [OF this, of 5 3] obtain s2 where
    m: "measure_power bench ''single'' 5 3 ?s1 = (Inr (Scalar 2), s2)"
    by blast
  from readings_scaled_by_unit [OF a b c d refl, of "''single''" 5 3 2 s2] m
  have "\<exists>raw. reading bench (length (sent ?s1) + 2) = Inr raw \<and> 2 = raw / scale ''mW''"
    by blast
  with a b c m show ?thesis
    by simp
qed

subsection \<open>Consistency of unit, mode and scale\<close>




subsection \<open>Choosing and opening the device\<close>



subsection \<open>A refused unit write\<close>

text \<open>
  C4, as stated, does not hold for the mode. On a transport that refuses its fourth
  request, \<open>PM100()\<close>, \<open>initialise('USB0')\<close>, \<open>set_units('W')\<close> leave the mode W. The write
  of \<open>set_units('dBm')\<close> is then refused, and the stored mode is DBM: the mode is assigned
  before the guarded write.
\<close>

theorem refused_write_changes_mode:
  "run (bench_refusing 3) [Initialise (Some ''USB0''), SetUnits (Some ''W'')]
     (init (bench_refusing 3) True) = bench_W \<and>
   unit_to_measure bench_W = Some ''W'' \<and>
   ack (bench_refusing 3) (length (sent bench_W)) = Some (DeviceError ''timeout'') \<and>
   unit_to_measure (snd (set_units (bench_refusing 3) (Some ''dBm'') bench_W)) = Some ''DBM''"
proof -
  have "run (bench_refusing 3) [Initialise (Some ''USB0''), SetUnits (Some ''W'')]
     (init (bench_refusing 3) True) = bench_W"
    using bench_refusing_pm [of 3] bench_refusing_W [of 3] by simp
  moreover have "unit_to_measure bench_W = Some ''W''"
    by (simp add: bench_W_def)
  moreover have "ack (bench_refusing 3) (length (sent bench_W)) = Some (DeviceError ''timeout'')"
    by (simp add: bench_W_def bench_pm_def bench_refusing_def)
  moreover have "unit_to_measure (snd (set_units (bench_refusing 3) (Some ''dBm'') bench_W)) = Some ''DBM''"
    by (simp add: set_units_unfold adopted_def unit_types_def native_mode_def bench_refusing_def
      bench_def bench_pm_def bench_W_def)
  ultimately show ?thesis
    by blast
qed

text \<open>
  C4, amended. When \<open>set_units\<close> sends the native mode and the transport refuses the
  write with \<open>e\<close>, the call returns normally, the error-changing-unit message with \<open>e\<close> is
  printed, and the stored scale factor is unchanged. The stored mode is not kept: it is
  the mode of the unit symbol now stored (DBM for dBm, W otherwise), which is also the
  mode that was sent.
\<close>

theorem set_units_refused_keeps_scale:
  "power_meter s \<noteq> None \<longrightarrow> ack E (length (sent s)) = Some e \<longrightarrow>
   set_units E arg s = (r, s') \<longrightarrow> sent s' \<noteq> sent s \<longrightarrow>
     r = Inr () \<and> conversion s' = conversion s \<and>
     printed s' = printed s @ [ErrorChangingUnit e] \<and>
     unit_to_measure s' = Some (if unit s' = ''dBm'' then ''DBM'' else ''W'') \<and>
     sent s' = sent s @ [SetPowerUnit (if unit s' = ''dBm'' then ''DBM'' else ''W'')]"
  by (auto simp add: set_units_unfold native_mode_def split: if_splits sum.splits option.splits)

theorem set_units_refused_keeps_scale_witness:
  "power_meter bench_W \<noteq> None \<and>
   ack (bench_refusing 3) (length (sent bench_W)) = Some (DeviceError ''timeout'') \<and>
   sent (snd (set_units (bench_refusing 3) (Some ''dBm'') bench_W)) \<noteq> sent bench_W \<and>
   fst (set_units (bench_refusing 3) (Some ''dBm'') bench_W) = Inr () \<and>
   conversion (snd (set_units (bench_refusing 3) (Some ''dBm'') bench_W)) = Some 1 \<and>
   printed (snd (set_units (bench_refusing 3) (Some ''dBm'') bench_W)) =
     printed bench_W @ [ErrorChangingUnit (DeviceError ''timeout'')] \<and>
   unit_to_measure (snd (set_units (bench_refusing 3) (Some ''dBm'') bench_W)) = Some ''DBM''"
proof -
  let ?E = "bench_refusing 3"
  let ?r = "set_units ?E (Some ''dBm'') bench_W"
  have a: "power_meter bench_W \<noteq> None"
    by (simp add: bench_W_def bench_pm_def)
  have b: "ack ?E (length (sent bench_W)) = Some (DeviceError ''timeout'')"
    by (simp add: bench_W_def bench_pm_def bench_refusing_def)
  have c: "?r = (fst ?r, snd ?r)"
    by simp
  have d: "sent (snd ?r) \<noteq> sent bench_W"
    by (simp add: set_units_unfold adopted_def unit_types_def native_mode_def bench_refusing_def
      bench_def bench_pm_def bench_W_def)
  have e: "unit (snd ?r) = ''dBm''"
    by (simp add: set_units_unfold adopted_def unit_types_def native_mode_def bench_refusing_def
      bench_def bench_pm_def bench_W_def)
  have f: "conversion bench_W = Some 1"
    by (simp add: bench_W_def)
  from set_units_refused_keeps_scale [of bench_W ?E "DeviceError ''timeout''" "Some ''dBm''" "fst ?r" "snd ?r"]
    a b c d e f
  show ?thesis
    by simp
qed

subsection \<open>The native mode sent\<close>

text \<open>
  C5. With a driver present, \<open>set_units('dBm')\<close> sends the native mode DBM to the device
  and nothing else, and \<open>set_units(u)\<close> for every other unit symbol \<open>u\<close> of the table sends
  the native mode W, the power mode of the instrument.
\<close>

theorem set_units_pushes_native_mode:
  "power_meter s \<noteq> None \<longrightarrow>
     sent (snd (set_units E (Some ''dBm'') s)) = sent s @ [SetPowerUnit ''DBM''] \<and>
     (u \<in> valid_units \<longrightarrow> u \<noteq> ''dBm'' \<longrightarrow>
        sent (snd (set_units E (Some u) s)) = sent s @ [SetPowerUnit ''W''])"
proof (intro impI conjI)
  assume pm: "power_meter s \<noteq> None"
  have "unit_types (adopted (Some ''dBm'') s) = Some 1"
    by (simp add: adopted_def unit_types_def)
  with pm show "sent (snd (set_units E (Some ''dBm'') s)) = sent s @ [SetPowerUnit ''DBM'']"
    by (auto simp add: set_units_unfold native_mode_def adopted_def split: option.splits)
next
  assume pm: "power_meter s \<noteq> None" and u: "u \<in> valid_units" "u \<noteq> ''dBm''"
  from u have "u \<noteq> []"
    by (auto simp add: valid_units_def)
  with u have "unit_types (adopted (Some u) s) = Some (scale u)"
    by (simp add: adopted_def unit_types_scale)
  with pm u \<open>u \<noteq> []\<close> show "sent (snd (set_units E (Some u) s)) = sent s @ [SetPowerUnit ''W'']"
    by (auto simp add: set_units_unfold native_mode_def adopted_def split: option.splits)
qed

theorem set_units_pushes_native_mode_witness:
  "power_meter bench_pm \<noteq> None \<and> ''mW'' \<in> valid_units \<and> ''mW'' \<noteq> ''dBm'' \<and>
   sent (snd (set_units bench (Some ''dBm'') bench_pm)) =
     [OpenResource ''USB0'' 2500, WrapDriver (Handle ''USB0''), SetPowerUnit ''DBM''] \<and>
   sent (snd (set_units bench (Some ''mW'') bench_pm)) =
     [OpenResource ''USB0'' 2500, WrapDriver (Handle ''USB0''), SetPowerUnit ''W'']"
proof -
  have a: "power_meter bench_pm \<noteq> None"
    by (simp add: bench_pm_def)
  have b: "''mW'' \<in> valid_units" "''mW'' \<noteq> ''dBm''"
    by (simp_all add: valid_units_def)
  have c: "sent bench_pm = [OpenResource ''USB0'' 2500, WrapDriver (Handle ''USB0'')]"
    by (simp add: bench_pm_def)
  from a b c set_units_pushes_native_mode [of bench_pm bench "''mW''"] show ?thesis
    by simp
qed

subsection \<open>close\<close>

text \<open>
  C6. \<open>close\<close> never raises, in any state of the controller and whatever the transport
  does. When there is no handle (\<open>initialise\<close> never ran, or failed before the handle was
  stored), or when releasing the handle raises, the exception is caught and
  \<open>No device connected!\<close> is printed.
\<close>

theorem close_never_raises:
  "fst (close E s) = Inr () \<and>
   (inst s = None \<longrightarrow>
      close E s = (Inr (), s\<lparr>printed := printed s @ [NoDeviceConnected]\<rparr>)) \<and>
   (inst s = Some h \<longrightarrow> ack E (length (sent s)) = Some e \<longrightarrow>
      close E s =
        (Inr (), s\<lparr>sent := sent s @ [CloseHandle h],
                   printed := printed s @ [NoDeviceConnected]\<rparr>))"
  by (simp add: close_def py_defs split: option.splits)

theorem close_never_raises_witness:
  "inst (init bench True) = None \<and>
   close bench (init bench True) =
     (Inr (), (init bench True)\<lparr>printed := [NoDeviceConnected]\<rparr>) \<and>
   inst bench_pm = Some (Handle ''USB0'') \<and>
   ack (bench_refusing 2) (length (sent bench_pm)) = Some (DeviceError ''timeout'') \<and>
   close (bench_refusing 2) bench_pm =
     (Inr (), bench_pm\<lparr>sent := sent bench_pm @ [CloseHandle (Handle ''USB0'')],
                        printed := printed bench_pm @ [NoDeviceConnected]\<rparr>)"
proof -
  have a: "inst (init bench True) = None"
    by (simp add: init_def)
  have b: "inst bench_pm = Some (Handle ''USB0'')"
    by (simp add: bench_pm_def)
  have c: "ack (bench_refusing 2) (length (sent bench_pm)) = Some (DeviceError ''timeout'')"
    by (simp add: bench_refusing_def bench_pm_def)
  have d: "printed (init bench True) = []"
    by (simp add: init_def)
  from a close_never_raises [of bench "init bench True"]
  have "close bench (init bench True) =
     (Inr (), (init bench True)\<lparr>printed := printed (init bench True) @ [NoDeviceConnected]\<rparr>)"
    by blast
  moreover from b c close_never_raises [of "bench_refusing 2" bench_pm "Handle ''USB0''" "DeviceError ''timeout''"]
  have "close (bench_refusing 2) bench_pm =
     (Inr (), bench_pm\<lparr>sent := sent bench_pm @ [CloseHandle (Handle ''USB0'')],
                        printed := printed bench_pm @ [NoDeviceConnected]\<rparr>)"
    by blast
  ultimately show ?thesis
    using a b c d by simp
qed

subsection \<open>average\<close>

text \<open>
  C7. Let \<open>n_averages\<close> be \<open>N\<close> with \<open>N\<close> at least 1; \<open>measure\<close> stores its
  \<open>n_averages\<close> argument there. When \<open>average\<close> returns, it has sent exactly \<open>N\<close> reads to
  the device and nothing else, its result has length \<open>N\<close>, and when verbose it has printed
  the mean and the standard deviation of the result, each rounded to 2 decimals. And
  \<open>average\<close> does return when the driver is there, the scale is set and not zero, and the
  \<open>N\<close> reads succeed. Python floats are taken as reals.
\<close>

theorem average_reads_n_averages:
  assumes "n_averages s = Some N" "1 \<le> N"
  shows "(average E s = (Inr data, s') \<longrightarrow>
            length data = nat N \<and> sent s' = sent s @ replicate (nat N) Read \<and>
            printed s' = printed s @
              (if verbose s then
                 [AverageValue (round2 (mean data)) (unit s),
                  StandardDeviation (round2 (std data)) (unit s)]
               else [])) \<and>
         (power_meter s \<noteq> None \<longrightarrow> conversion s = Some c \<longrightarrow> c \<noteq> 0 \<longrightarrow>
            (\<forall>i<nat N. \<exists>raw. reading E (length (sent s) + i) = Inr raw) \<longrightarrow>
            (\<exists>xs t. average E s = (Inr xs, t))) \<and>
         (measure_power E ty rate N s0 = (Inr d, s1) \<longrightarrow> n_averages s1 = Some N)"
proof (intro conjI impI)
  assume a: "average E s = (Inr data, s')"
  from average_Inr [OF a] assms(1)
  show "length data = nat N" "sent s' = sent s @ replicate (nat N) Read"
    "printed s' = printed s @
              (if verbose s then
                 [AverageValue (round2 (mean data)) (unit s),
                  StandardDeviation (round2 (std data)) (unit s)]
               else [])"
    by (auto simp add: report_def)
next
  assume "power_meter s \<noteq> None" "conversion s = Some c" "c \<noteq> 0"
    "\<forall>i<nat N. \<exists>raw. reading E (length (sent s) + i) = Inr raw"
  with average_ok [OF assms(1), of _ c E] show "\<exists>xs t. average E s = (Inr xs, t)"
    by (cases "power_meter s") auto
next
  assume "measure_power E ty rate N s0 = (Inr d, s1)"
  then show "n_averages s1 = Some N"
    by (rule measure_power_n_averages)
qed

theorem average_reads_n_averages_witness:
  "n_averages (bench_mW\<lparr>n_averages := Some 3\<rparr>) = Some 3 \<and> (1::int) \<le> 3 \<and>
   power_meter (bench_mW\<lparr>n_averages := Some 3\<rparr>) \<noteq> None \<and>
   conversion (bench_mW\<lparr>n_averages := Some 3\<rparr>) = Some (1 / 10 ^ 3) \<and> (1::real) / 10 ^ 3 \<noteq> 0 \<and>
   reading bench (length (sent (bench_mW\<lparr>n_averages := Some 3\<rparr>))) = Inr (1 / 500) \<and>
   reading bench (length (sent (bench_mW\<lparr>n_averages := Some 3\<rparr>)) + 1) = Inr (1 / 500) \<and>
   reading bench (length (sent (bench_mW\<lparr>n_averages := Some 3\<rparr>)) + 2) = Inr (1 / 500) \<and>
   (\<exists>xs t. average bench (bench_mW\<lparr>n_averages := Some 3\<rparr>) = (Inr xs, t) \<and>
      length xs = 3 \<and> sent t = sent bench_mW @ [Read, Read, Read] \<and>
      printed t = printed bench_mW @
        [AverageValue (round2 (mean xs)) ''mW'', StandardDeviation (round2 (std xs)) ''mW'']) \<and>
   average bench (bench_mW\<lparr>n_averages := Some 3\<rparr>) =
     (Inr [2, 2, 2],
      bench_mW\<lparr>n_averages := Some 3, sent := sent bench_mW @ [Read, Read, Read],
               printed := printed bench_mW @ [AverageValue 2 ''mW'', StandardDeviation 0 ''mW'']\<rparr>)"
proof -
  let ?s = "bench_mW\<lparr>n_averages := Some 3\<rparr>"
  have a: "n_averages ?s = Some 3" "(1::int) \<le> 3"
    by simp_all
  have b: "power_meter ?s \<noteq> None" "conversion ?s = Some (1 / 10 ^ 3)" "(1::real) / 10 ^ 3 \<noteq> 0"
    by (simp_all add: bench_mW_def bench_pm_def)
  have c: "\<forall>i<nat 3. \<exists>raw. reading bench (length (sent ?s) + i) = Inr raw"
    by (intro allI impI exI [of _ "1 / 500"]) (simp add: bench_def)
  have v: "verbose ?s" "unit ?s = ''mW''"
    by (simp_all add: bench_mW_def bench_pm_def)
  note ex = average_reads_n_averages [OF a, where E = bench and c = "1 / 10 ^ 3"]
  from ex b c obtain xs t where r: "average bench ?s = (Inr xs, t)"
    by blast
  from average_reads_n_averages [OF a, where E = bench and data = xs and s' = t] r v
  have "length xs = 3" "sent t = sent bench_mW @ [Read, Read, Read]"
    "printed t = printed bench_mW @
        [AverageValue (round2 (mean xs)) ''mW'', StandardDeviation (round2 (std xs)) ''mW'']"
    by (simp_all add: numeral_3_eq_3)
  with r have e: "\<exists>xs t. average bench ?s = (Inr xs, t) \<and>
      length xs = 3 \<and> sent t = sent bench_mW @ [Read, Read, Read] \<and>
      printed t = printed bench_mW @
        [AverageValue (round2 (mean xs)) ''mW'', StandardDeviation (round2 (std xs)) ''mW'']"
    by blast
  have f: "average bench ?s =
     (Inr [2, 2, 2],
      bench_mW\<lparr>n_averages := Some 3, sent := sent bench_mW @ [Read, Read, Read],
               printed := printed bench_mW @ [AverageValue 2 ''mW'', StandardDeviation 0 ''mW'']\<rparr>)"
    using bench_average [OF b(1,2) a(1)] v by simp
  have g: "reading bench (length (sent ?s)) = Inr (1 / 500)"
    "reading bench (length (sent ?s) + 1) = Inr (1 / 500)"
    "reading bench (length (sent ?s) + 2) = Inr (1 / 500)"
    by (simp_all add: bench_def)
  from a b g e f show ?thesis
    by blast
qed

subsection \<open>The prompt for a unit\<close>

text \<open>
  C8. When the unit symbol in force is not in the table, \<open>set_units\<close> prompts exactly
  once, and stores what the operator typed without validating it: the call returns
  normally with the typed text \<open>t\<close> as the unit. When \<open>t\<close> is not in the table either,
  the driver is there and the write is acknowledged, the mode W has been sent, and the
  lookup of the scale of \<open>t\<close> raises \<open>KeyError\<close>, which is caught and printed; there is no
  second prompt.
\<close>

theorem reprompt_not_validated:
  "unit_types (adopted arg s) = None \<longrightarrow>
     prompts (snd (set_units E arg s)) = prompts s @ [ChooseUnit] \<and>
     (keyboard E (length (prompts s)) = Inr t \<longrightarrow>
        fst (set_units E arg s) = Inr () \<and> unit (snd (set_units E arg s)) = t \<and>
        (unit_types t = None \<longrightarrow> power_meter s \<noteq> None \<longrightarrow> ack E (length (sent s)) = None \<longrightarrow>
           set_units E arg s =
             (Inr (), s\<lparr>unit := t, unit_to_measure := Some ''W'',
                        sent := sent s @ [SetPowerUnit ''W''],
                        prompts := prompts s @ [ChooseUnit],
                        printed := printed s @ [ErrorChangingUnit (KeyError t)]\<rparr>)))"
proof (intro impI conjI)
  assume n: "unit_types (adopted arg s) = None"
  then show "prompts (snd (set_units E arg s)) = prompts s @ [ChooseUnit]"
    by (rule set_units_prompts)
next
  assume "unit_types (adopted arg s) = None" "keyboard E (length (prompts s)) = Inr t"
  then show "fst (set_units E arg s) = Inr ()" "unit (snd (set_units E arg s)) = t"
    by (auto simp add: set_units_unfold split: option.splits)
next
  assume "unit_types (adopted arg s) = None" "keyboard E (length (prompts s)) = Inr t"
    "unit_types t = None" "power_meter s \<noteq> None" "ack E (length (sent s)) = None"
  moreover from \<open>unit_types t = None\<close> have "t \<noteq> ''dBm''"
    by (auto simp add: unit_types_def)
  ultimately show "set_units E arg s =
             (Inr (), s\<lparr>unit := t, unit_to_measure := Some ''W'',
                        sent := sent s @ [SetPowerUnit ''W''],
                        prompts := prompts s @ [ChooseUnit],
                        printed := printed s @ [ErrorChangingUnit (KeyError t)]\<rparr>)"
    by (auto simp add: set_units_unfold native_mode_def split: option.splits)
qed

theorem reprompt_not_validated_witness:
  "unit_types (adopted (Some ''kW'') bench_pm) = None \<and>
   keyboard (bench_typing ''MW'') (length (prompts bench_pm)) = Inr ''MW'' \<and>
   unit_types ''MW'' = None \<and> power_meter bench_pm \<noteq> None \<and>
   ack (bench_typing ''MW'') (length (sent bench_pm)) = None \<and>
   set_units (bench_typing ''MW'') (Some ''kW'') bench_pm =
     (Inr (), bench_pm\<lparr>unit := ''MW'', unit_to_measure := Some ''W'',
                sent := sent bench_pm @ [SetPowerUnit ''W''],
                prompts := prompts bench_pm @ [ChooseUnit],
                printed := printed bench_pm @ [ErrorChangingUnit (KeyError ''MW'')]\<rparr>)"
proof -
  have a: "unit_types (adopted (Some ''kW'') bench_pm) = None"
    by (simp add: adopted_def unit_types_def)
  have b: "keyboard (bench_typing ''MW'') (length (prompts bench_pm)) = Inr ''MW''"
    by (simp add: bench_typing_def)
  have c: "unit_types ''MW'' = None"
    by (simp add: unit_types_def)
  have d: "power_meter bench_pm \<noteq> None"
    by (simp add: bench_pm_def)
  have e: "ack (bench_typing ''MW'') (length (sent bench_pm)) = None"
    by (simp add: bench_typing_def bench_def)
  from reprompt_not_validated [of "Some ''kW''" bench_pm "bench_typing ''MW''" "''MW''"] a b c d e
  show ?thesis
    by blast
qed

subsection \<open>set_bandwidth\<close>

text \<open>
  C9. \<open>set_bandwidth\<close> returns normally in every case. With a driver present, the state
  \<open>low\<close> writes the filter state 1 to the device and \<open>high\<close> writes 0. Any other state
  only prints the invalid-state message: nothing is written to the device.
\<close>

theorem set_bandwidth_writes:
  "fst (set_bandwidth E state s) = Inr () \<and>
   (power_meter s \<noteq> None \<longrightarrow>
      sent (snd (set_bandwidth E ''low'' s)) = sent s @ [SetLpassState 1] \<and>
      sent (snd (set_bandwidth E ''high'' s)) = sent s @ [SetLpassState 0]) \<and>
   (state \<noteq> ''low'' \<longrightarrow> state \<noteq> ''high'' \<longrightarrow>
      set_bandwidth E state s = (Inr (), s\<lparr>printed := printed s @ [InvalidState state]\<rparr>))"
  by (auto simp add: set_bandwidth_def bandwidth_def py_defs split: option.splits)

theorem set_bandwidth_writes_witness:
  "power_meter bench_pm \<noteq> None \<and> ''medium'' \<noteq> ''low'' \<and> ''medium'' \<noteq> ''high'' \<and>
   sent (snd (set_bandwidth bench ''low'' bench_pm)) = sent bench_pm @ [SetLpassState 1] \<and>
   sent (snd (set_bandwidth bench ''high'' bench_pm)) = sent bench_pm @ [SetLpassState 0] \<and>
   set_bandwidth bench ''medium'' bench_pm =
     (Inr (), bench_pm\<lparr>printed := printed bench_pm @ [InvalidState ''medium'']\<rparr>)"
proof -
  have a: "power_meter bench_pm \<noteq> None"
    by (simp add: bench_pm_def)
  have b: "''medium'' \<noteq> ''low''" "''medium'' \<noteq> ''high''"
    by simp_all
  from a b set_bandwidth_writes [of bench "''medium''" bench_pm] show ?thesis
    by blast
qed

subsection \<open>What a measurement prints\<close>

text \<open>
  C10. A \<open>measure\<close> call of any type other than \<open>average\<close> that returns has printed its
  reading, rounded to 2 decimals and followed by the unit, whether the controller is
  verbose or not. \<open>average\<close> prints its two lines when the controller is verbose and
  nothing otherwise, so that an averaged \<open>measure\<close> on a controller that is not verbose
  prints nothing.
\<close>

theorem single_reading_printed_regardless:
  "(ty \<noteq> ''average'' \<longrightarrow> measure_power E ty rate n s = (Inr d, s') \<longrightarrow>
      (\<exists>x. d = Scalar x \<and> printed s' = printed s @ [PowerReading (round2 x) (unit s)])) \<and>
   (average E s = (Inr data, s2) \<longrightarrow>
      printed s2 = printed s @
        (if verbose s then
           [AverageValue (round2 (mean data)) (unit s),
            StandardDeviation (round2 (std data)) (unit s)]
         else [])) \<and>
   (\<not> verbose s \<longrightarrow> measure_power E ''average'' rate n s = (Inr d2, s3) \<longrightarrow>
      printed s3 = printed s)"
proof (intro conjI impI)
  assume "ty \<noteq> ''average''" "measure_power E ty rate n s = (Inr d, s')"
  from measure_single_Inr [OF this(2,1)]
  show "\<exists>x. d = Scalar x \<and> printed s' = printed s @ [PowerReading (round2 x) (unit s)]"
    by auto
next
  assume "average E s = (Inr data, s2)"
  from average_Inr [OF this]
  show "printed s2 = printed s @
        (if verbose s then
           [AverageValue (round2 (mean data)) (unit s),
            StandardDeviation (round2 (std data)) (unit s)]
         else [])"
    by (auto simp add: report_def)
next
  assume "\<not> verbose s" "measure_power E ''average'' rate n s = (Inr d2, s3)"
  from measure_average_Inr [OF this(2)] this(1) show "printed s3 = printed s"
    by (auto simp add: report_def)
qed

theorem single_reading_printed_regardless_witness:
  "''single'' \<noteq> ''average'' \<and> \<not> verbose (bench_mW\<lparr>verbose := False\<rparr>) \<and>
   fst (measure_power bench ''single'' 5 3 (bench_mW\<lparr>verbose := False\<rparr>)) = Inr (Scalar 2) \<and>
   printed (snd (measure_power bench ''single'' 5 3 (bench_mW\<lparr>verbose := False\<rparr>))) =
     printed bench_mW @ [PowerReading 2 ''mW''] \<and>
   fst (measure_power bench ''average'' 5 3 (bench_mW\<lparr>verbose := False\<rparr>)) = Inr (Array [2, 2, 2]) \<and>
   printed (snd (measure_power bench ''average'' 5 3 (bench_mW\<lparr>verbose := False\<rparr>))) =
     printed bench_mW"
proof -
  let ?s = "bench_mW\<lparr>verbose := False\<rparr>"
  have a: "''single'' \<noteq> ''average''" "\<not> verbose ?s"
    by simp_all
  have b: "power_meter ?s \<noteq> None" "conversion ?s = Some (1 / 10 ^ 3)" "unit ?s = ''mW''"
    "printed ?s = printed bench_mW"
    by (simp_all add: bench_mW_def bench_pm_def)
  from bench_single [OF b(1,2), of 5 3] obtain s1 where
    m: "measure_power bench ''single'' 5 3 ?s = (Inr (Scalar 2), s1)"
    by blast
  from bench_measure_average [OF b(1,2), of 5] obtain s3 where
    v: "measure_power bench ''average'' 5 3 ?s = (Inr (Array [2, 2, 2]), s3)"
    by blast
  from single_reading_printed_regardless
    [of "''single''" bench 5 3 ?s "Scalar 2" s1 "[]" ?s "Array [2, 2, 2]" s3] a m v b
  have "printed s1 = printed bench_mW @ [PowerReading 2 ''mW'']" "printed s3 = printed bench_mW"
    by (auto simp add: round2_2)
  with a m v show ?thesis
    by simp
qed

end
